theory Spec2Isabelle
  imports Complex_Main "HOL-Library.Sublist"
begin

section \<open>Strings and the transport classification\<close>

text \<open>
  Targets are modelled as \<^typ>\<open>string\<close>, a list of 8-bit characters. The
  JavaScript method \<^verbatim>\<open>toLowerCase\<close> is modelled on the ASCII letters, which is where
  the three patterns of the classification live; every other character is left as it is.
\<close>

definition lower_char :: "char \<Rightarrow> char" where
  "lower_char c =
     (if 65 \<le> (of_char c :: nat) \<and> (of_char c :: nat) \<le> 90
      then char_of ((of_char c :: nat) + 32) else c)"


definition toLowerCase :: "string \<Rightarrow> string" where
  "toLowerCase s = map lower_char s"

text \<open>\<^verbatim>\<open>s.startsWith(p)\<close> and \<^verbatim>\<open>s.includes(p)\<close>, by recursion on the subject.\<close>

fun startsWith :: "string \<Rightarrow> string \<Rightarrow> bool" where
  "startsWith s [] = True"
| "startsWith [] (p # ps) = False"
| "startsWith (c # cs) (p # ps) = (c = p \<and> startsWith cs ps)"

fun str_includes :: "string \<Rightarrow> string \<Rightarrow> bool" where
  "str_includes [] p = (p = [])"
| "str_includes (c # cs) p = (startsWith (c # cs) p \<or> str_includes cs p)"

datatype connection_type = websocket | socketio

text \<open>
  \<^verbatim>\<open>_detectConnectionType(url)\<close> of \<^verbatim>\<open>src/app.js\<close>: the method reads nothing but
  its argument.
\<close>

definition detectConnectionType :: "string \<Rightarrow> connection_type" where
  "detectConnectionType url =
     (let lowerUrl = toLowerCase url in
      if str_includes lowerUrl ''socket.io'' \<or> startsWith lowerUrl ''http://''
         \<or> startsWith lowerUrl ''https://''
      then socketio else websocket)"




section \<open>The host platform as the client sees it\<close>

text \<open>
  A transport object is created by \<^verbatim>\<open>new WebSocket(url)\<close> or by \<^verbatim>\<open>io(baseUrl, ...)\<close>.
  \<open>kind\<close> says which constructor made it, \<open>target\<close> is the address its handlers'
  closure holds, \<open>phase\<close> is where the platform has it in its life. A WebSocket shows the
  phase as \<^verbatim>\<open>readyState\<close> and has no \<^verbatim>\<open>connected\<close> property; a Socket.IO socket shows
  \<^verbatim>\<open>connected\<close> and has no \<^verbatim>\<open>readyState\<close>. A property that an object does not have
  reads as \<^verbatim>\<open>undefined\<close>, modelled by \<open>None\<close>.
\<close>

datatype ready_state = CONNECTING | OPEN | CLOSING | CLOSED

record transport =
  kind :: connection_type
  target :: string
  phase :: ready_state

definition readyState :: "transport \<Rightarrow> ready_state option" where
  "readyState t = (if kind t = websocket then Some (phase t) else None)"

definition connected :: "transport \<Rightarrow> bool option" where
  "connected t = (if kind t = socketio then Some (phase t = OPEN) else None)"

text \<open>Values that \<^verbatim>\<open>JSON.parse\<close> returns and that Socket.IO delivers.\<close>

datatype json =
    JNull
  | JBool bool
  | JNumber real
  | JString string
  | JArray "json list"
  | JObject "(string \<times> json) list"

text \<open>Truthiness of a value, and of a property read that may give \<^verbatim>\<open>undefined\<close>.\<close>

fun truthy :: "json \<Rightarrow> bool" where
  "truthy JNull = False"
| "truthy (JBool b) = b"
| "truthy (JNumber x) = (x \<noteq> 0)"
| "truthy (JString s) = (s \<noteq> [])"
| "truthy (JArray xs) = True"
| "truthy (JObject kvs) = True"

text \<open>
  \<^verbatim>\<open>data[name]\<close> for the names \<^verbatim>\<open>event\<close> and \<^verbatim>\<open>data\<close>: reading a property of
  \<^verbatim>\<open>null\<close> throws a TypeError (\<open>Inl\<close>), an object gives the member or
  \<^verbatim>\<open>undefined\<close>, every other value gives \<^verbatim>\<open>undefined\<close>.
\<close>

datatype js_error = TypeError | SyntaxError

fun get_prop :: "json \<Rightarrow> string \<Rightarrow> js_error + json option" where
  "get_prop JNull name = Inl TypeError"
| "get_prop (JObject kvs) name = Inr (map_of kvs name)"
| "get_prop v name = Inr None"

text \<open>What a message event of a WebSocket carries in \<^verbatim>\<open>ev.data\<close>.\<close>

datatype ws_data = Text_frame string | Blob_frame | ArrayBuffer_frame

text \<open>\<^verbatim>\<open>String(ev.data || "")\<close>.\<close>

fun ws_text :: "ws_data \<Rightarrow> string" where
  "ws_text (Text_frame s) = (if s = [] then [] else s)"
| "ws_text Blob_frame = ''[object Blob]''"
| "ws_text ArrayBuffer_frame = ''[object ArrayBuffer]''"

text \<open>
  What the client reads from its surroundings at the moment of a call: the application
  state (\<^verbatim>\<open>App.state\<close>, through \<^verbatim>\<open>getUrl\<close> as well), the next value of
  \<^verbatim>\<open>Math.random()\<close>, and how the platform's constructors and JSON functions answer.
  \<open>reconnectDelay\<close> is \<^verbatim>\<open>Number(App.state.reconnectDelay)\<close>, with \<open>None\<close> for NaN.
  Numbers are IEEE doubles in the source and real numbers here.
\<close>

record env =
  serverUrl :: string
  autoReconnect :: bool
  reconnectDelay :: "real option"
  math_random :: real
  ws_ctor_throws :: "string \<Rightarrow> bool"
  url_base :: "string \<Rightarrow> string option"
  io_loaded :: bool
  io_ctor_throws :: "string \<Rightarrow> bool"
  JSON_parse :: "string \<Rightarrow> json option"
  JSON_stringify :: "json \<Rightarrow> string"
  io_emit_throws :: "json \<Rightarrow> bool"

section \<open>What the client does to the outside\<close>

datatype level = Info | Warn | Error

text \<open>
  The lines that the client writes with \<^verbatim>\<open>Log.ws\<close>, with the addresses, codes, reasons
  and delays they interpolate (the delay before \<^verbatim>\<open>Math.round\<close>); the message of a caught
  exception is not kept.
\<close>

datatype ws_line =
    No_URL_configured
  | Connecting_via_WebSocket string
  | Connected_via_WebSocket string
  | Error_line string
  | Closed_line int string
  | Connection_failed
  | Connecting_via_SocketIO string
  | SocketIO_library_not_loaded
  | Connected_via_SocketIO string
  | Disconnected_line string
  | Connection_error_line
  | Reconnecting_in real
  | Send_failed_not_connected
  | Send_failed_SocketIO_not_connected
  | Send_failed_connection_not_open

datatype effect =
    Log_ws ws_line level
  | Log_rx string
  | Log_tx string
  | Call_onOpen
  | Call_onClose "int option" string
  | Call_onMessage string
  | Call_onError
  | Native_send nat string
  | Native_emit nat json json
  | Native_close nat int string
  | Native_disconnect nat

section \<open>The client\<close>

text \<open>
  The fields of \<^verbatim>\<open>ConnectionClient\<close> (\<open>attempt\<close>, \<open>manualClose\<close> and
  \<open>reconnectTimer\<close> are \<^verbatim>\<open>_attempt\<close>, \<^verbatim>\<open>_manualClose\<close> and \<^verbatim>\<open>_reconnectTimer\<close>),
  together with the part of the platform its methods act on: the transport objects made
  so far (\<open>connection\<close> is a reference into them), the pending timeouts with their
  delays, the next timeout handle, and the sequence of effects so far.
\<close>

record client =
  connection :: "nat option"
  connectionType :: "connection_type option"
  reconnectTimer :: "nat option"
  manualClose :: bool
  attempt :: nat
  transports :: "transport list"
  timers :: "(nat \<times> real) list"
  next_timer :: nat
  trace :: "effect list"

definition client_init :: client where
  "client_init =
     \<lparr>connection = None, connectionType = None, reconnectTimer = None,
      manualClose = False, attempt = 0, transports = [], timers = [],
      next_timer = 0, trace = []\<rparr>"

datatype js_result = Ret_undefined | Ret_bool bool | Throw_TypeError

definition effect_add :: "effect \<Rightarrow> client \<Rightarrow> client" where
  "effect_add x s = s\<lparr>trace := trace s @ [x]\<rparr>"

definition lookup :: "client \<Rightarrow> nat \<Rightarrow> transport option" where
  "lookup s i = (if i < length (transports s) then Some (transports s ! i) else None)"

text \<open>The object behind \<^verbatim>\<open>this.connection\<close>, with its place; \<open>None\<close> for \<^verbatim>\<open>null\<close>.\<close>

definition deref :: "client \<Rightarrow> (nat \<times> transport) option" where
  "deref s =
     (case connection s of None \<Rightarrow> None
      | Some i \<Rightarrow> (case lookup s i of None \<Rightarrow> None | Some t \<Rightarrow> Some (i, t)))"

definition set_phase :: "nat \<Rightarrow> ready_state \<Rightarrow> client \<Rightarrow> client" where
  "set_phase i p s = s\<lparr>transports := (transports s)[i := (transports s ! i)\<lparr>phase := p\<rparr>]\<rparr>"

definition new_transport :: "connection_type \<Rightarrow> string \<Rightarrow> client \<Rightarrow> nat \<times> client" where
  "new_transport k url s =
     (length (transports s),
      s\<lparr>transports := transports s @ [\<lparr>kind = k, target = url, phase = CONNECTING\<rparr>]\<rparr>)"

definition clearTimeout :: "nat option \<Rightarrow> client \<Rightarrow> client" where
  "clearTimeout h s =
     (case h of None \<Rightarrow> s
      | Some i \<Rightarrow> s\<lparr>timers := filter (\<lambda>p. fst p \<noteq> i) (timers s)\<rparr>)"

definition setTimeout :: "real \<Rightarrow> client \<Rightarrow> nat \<times> client" where
  "setTimeout d s =
     (next_timer s,
      s\<lparr>timers := timers s @ [(next_timer s, d)], next_timer := Suc (next_timer s)\<rparr>)"

subsection \<open>The reconnect policy\<close>

text \<open>\<^verbatim>\<open>Number(App.state.reconnectDelay) || 1500\<close>.\<close>

definition base_delay :: "env \<Rightarrow> real" where
  "base_delay e =
     (case reconnectDelay e of None \<Rightarrow> 1500
      | Some x \<Rightarrow> if x = 0 then 1500 else x)"

definition scheduleReconnect :: "env \<Rightarrow> client \<Rightarrow> client" where
  "scheduleReconnect e s =
     (let s1 = clearTimeout (reconnectTimer s) s;
          base = base_delay e;
          jitter = math_random e * 250;
          backoff = min 8000 (real (attempt s1) * 300);
          delay = base + jitter + backoff;
          s2 = s1\<lparr>attempt := Suc (attempt s1)\<rparr>;
          s3 = effect_add (Log_ws (Reconnecting_in delay) Warn) s2;
          (h, s4) = setTimeout delay s3
      in s4\<lparr>reconnectTimer := Some h\<rparr>)"

subsection \<open>The handlers that \<^verbatim>\<open>_connectWebSocket\<close> registers\<close>

text \<open>
  The observers are called where the source calls them (\<^verbatim>\<open>this.onOpen?.()\<close> and so on).
  A message or reason that the event does not carry is the empty string, which is falsy
  as \<^verbatim>\<open>undefined\<close> is.
\<close>

definition ws_on_open :: "string \<Rightarrow> client \<Rightarrow> client" where
  "ws_on_open url s =
     effect_add Call_onOpen
       (effect_add (Log_ws (Connected_via_WebSocket url) Info) (s\<lparr>attempt := 0\<rparr>))"

definition ws_on_message :: "ws_data \<Rightarrow> client \<Rightarrow> client" where
  "ws_on_message d s =
     (let text = ws_text d in effect_add (Call_onMessage text) (effect_add (Log_rx text) s))"

definition ws_on_error :: "string \<Rightarrow> client \<Rightarrow> client" where
  "ws_on_error msg s =
     effect_add Call_onError
       (effect_add (Log_ws (Error_line (if msg = [] then ''unknown'' else msg)) Error) s)"

definition ws_on_close :: "env \<Rightarrow> int \<Rightarrow> string \<Rightarrow> client \<Rightarrow> client" where
  "ws_on_close e code reason s =
     (let s1 = effect_add
                 (Log_ws (Closed_line code (if reason = [] then ''none'' else reason)) Warn) s;
          s2 = effect_add (Call_onClose (Some code) reason) s1
      in if \<not> manualClose s2 \<and> autoReconnect e then scheduleReconnect e s2 else s2)"


subsection \<open>The handlers that \<^verbatim>\<open>_connectSocketIO\<close> registers\<close>

definition io_on_connect :: "string \<Rightarrow> client \<Rightarrow> client" where
  "io_on_connect baseUrl s =
     effect_add Call_onOpen
       (effect_add (Log_ws (Connected_via_SocketIO baseUrl) Info) (s\<lparr>attempt := 0\<rparr>))"

definition io_on_message :: "env \<Rightarrow> json \<Rightarrow> client \<Rightarrow> client" where
  "io_on_message e d s =
     (let text = (case d of JString t \<Rightarrow> t | _ \<Rightarrow> JSON_stringify e d)
      in effect_add (Call_onMessage text) (effect_add (Log_rx text) s))"

definition io_on_any :: "env \<Rightarrow> string \<Rightarrow> json list \<Rightarrow> client \<Rightarrow> client" where
  "io_on_any e eventName args s =
     (if eventName \<noteq> ''connect'' \<and> eventName \<noteq> ''disconnect'' \<and> eventName \<noteq> ''message''
         \<and> eventName \<noteq> ''error'' \<and> eventName \<noteq> ''connect_error''
      then (case args of
              [JString a] \<Rightarrow> effect_add (Call_onMessage a) (effect_add (Log_rx a) s)
            | _ \<Rightarrow>
              (let text = JSON_stringify e
                            (JObject [(''event'', JString eventName), (''data'', JArray args)])
               in effect_add (Call_onMessage text) (effect_add (Log_rx text) s)))
      else s)"

definition io_on_error :: "string \<Rightarrow> client \<Rightarrow> client" where
  "io_on_error msg s =
     effect_add Call_onError
       (effect_add (Log_ws (Error_line (if msg = [] then ''unknown'' else msg)) Error) s)"

definition io_on_disconnect :: "env \<Rightarrow> string \<Rightarrow> client \<Rightarrow> client" where
  "io_on_disconnect e reason s =
     (let s1 = effect_add (Log_ws (Disconnected_line reason) Warn) s;
          s2 = effect_add (Call_onClose None reason) s1
      in if \<not> manualClose s2 \<and> autoReconnect e then scheduleReconnect e s2 else s2)"

definition io_on_connect_error :: "env \<Rightarrow> client \<Rightarrow> client" where
  "io_on_connect_error e s =
     (let s1 = effect_add (Log_ws Connection_error_line Error) s
      in if \<not> manualClose s1 \<and> autoReconnect e then scheduleReconnect e s1 else s1)"

subsection \<open>Opening a transport\<close>

text \<open>
  \<^verbatim>\<open>_connectWebSocket(url)\<close>. The constructor is the one statement of the \<^verbatim>\<open>try\<close> block
  that can throw; when it does, \<^verbatim>\<open>this.connection\<close> has not been assigned and the
  \<^verbatim>\<open>catch\<close> block runs.
\<close>

definition connectWebSocket :: "env \<Rightarrow> string \<Rightarrow> client \<Rightarrow> client" where
  "connectWebSocket e url s =
     (let s1 = effect_add (Log_ws (Connecting_via_WebSocket url) Info) s
      in if ws_ctor_throws e url
         then scheduleReconnect e (effect_add (Log_ws Connection_failed Error) s1)
         else (let (ws, s2) = new_transport websocket url s1
               in s2\<lparr>connection := Some ws\<rparr>))"

text \<open>
  \<^verbatim>\<open>_connectSocketIO(url)\<close>. \<^verbatim>\<open>new URL(ioUrl)\<close> and \<^verbatim>\<open>io(baseUrl, ...)\<close> can throw;
  \<open>url_base\<close> gives \<^verbatim>\<open>`${urlObj.protocol}//${urlObj.host}`\<close> when the address parses.
\<close>

definition io_url :: "string \<Rightarrow> string" where
  "io_url url =
     (if startsWith url ''ws://'' then ''http://'' @ drop 5 url
      else if startsWith url ''wss://'' then ''https://'' @ drop 6 url
      else url)"

definition connectSocketIO :: "env \<Rightarrow> string \<Rightarrow> client \<Rightarrow> client" where
  "connectSocketIO e url s =
     (case url_base e (io_url url) of
        None \<Rightarrow> scheduleReconnect e (effect_add (Log_ws Connection_failed Error) s)
      | Some baseUrl \<Rightarrow>
          (let s1 = effect_add (Log_ws (Connecting_via_SocketIO baseUrl) Info) s
           in if \<not> io_loaded e
              then effect_add (Log_ws SocketIO_library_not_loaded Error) s1
              else if io_ctor_throws e baseUrl
              then scheduleReconnect e (effect_add (Log_ws Connection_failed Error) s1)
              else (let (socket, s2) = new_transport socketio baseUrl s1
                    in s2\<lparr>connection := Some socket\<rparr>)))"

definition connect :: "env \<Rightarrow> client \<Rightarrow> js_result \<times> client" where
  "connect e s =
     (let url = serverUrl e
      in if url = [] then (Ret_undefined, effect_add (Log_ws No_URL_configured Warn) s)
         else (let s1 = s\<lparr>manualClose := False\<rparr>;
                   s2 = s1\<lparr>connectionType := Some (detectConnectionType url)\<rparr>
               in if connectionType s2 = Some socketio
                  then (Ret_undefined, connectSocketIO e url s2)
                  else (Ret_undefined, connectWebSocket e url s2)))"

subsection \<open>Closing\<close>

text \<open>
  The two native operations that \<^verbatim>\<open>disconnect()\<close> calls. \<^verbatim>\<open>ws.close(code, reason)\<close>
  starts the closing handshake: the object is CLOSING until its close event. Socket.IO's
  \<^verbatim>\<open>socket.disconnect()\<close> ends the socket at once and, when the socket was connected,
  delivers the \<^verbatim>\<open>disconnect\<close> notification before it returns.
\<close>

definition ws_close :: "nat \<Rightarrow> int \<Rightarrow> string \<Rightarrow> client \<Rightarrow> client" where
  "ws_close i code reason s = set_phase i CLOSING (effect_add (Native_close i code reason) s)"

definition socket_disconnect :: "env \<Rightarrow> nat \<Rightarrow> transport \<Rightarrow> client \<Rightarrow> client" where
  "socket_disconnect e i t s =
     (let s1 = set_phase i CLOSED (effect_add (Native_disconnect i) s)
      in if phase t = OPEN then io_on_disconnect e ''io client disconnect'' s1 else s1)"

text \<open>
  \<^verbatim>\<open>disconnect()\<close>. In the \<^verbatim>\<open>socketio\<close> branch the method \<^verbatim>\<open>disconnect\<close> is called on
  whatever object \<^verbatim>\<open>this.connection\<close> holds; a WebSocket has no such method, the call
  throws a TypeError and the last assignment is not reached. In the \<^verbatim>\<open>websocket\<close>
  branch \<^verbatim>\<open>readyState\<close> of a Socket.IO socket is \<^verbatim>\<open>undefined\<close> and equals neither
  constant.
\<close>

definition disconnect :: "env \<Rightarrow> client \<Rightarrow> js_result \<times> client" where
  "disconnect e s =
     (let s1 = s\<lparr>manualClose := True\<rparr>;
          s2 = clearTimeout (reconnectTimer s1) s1
      in case deref s2 of
           None \<Rightarrow> (Ret_undefined, s2\<lparr>connection := None\<rparr>)
         | Some (i, t) \<Rightarrow>
             if connectionType s2 = Some socketio
             then (if kind t = socketio
                   then (Ret_undefined, (socket_disconnect e i t s2)\<lparr>connection := None\<rparr>)
                   else (Throw_TypeError, s2))
             else if connectionType s2 = Some websocket
             then (if readyState t = Some OPEN \<or> readyState t = Some CONNECTING
                   then (Ret_undefined, (ws_close i 1000 ''client-close'' s2)\<lparr>connection := None\<rparr>)
                   else (Ret_undefined, s2\<lparr>connection := None\<rparr>))
             else (Ret_undefined, s2\<lparr>connection := None\<rparr>))"

subsection \<open>Sending\<close>

text \<open>
  The \<^verbatim>\<open>try\<close> block of the \<^verbatim>\<open>socketio\<close> branch of \<^verbatim>\<open>send\<close>: what is handed to
  \<^verbatim>\<open>emit\<close>, as event and argument. Whatever throws inside (\<^verbatim>\<open>JSON.parse\<close>, reading
  \<^verbatim>\<open>event\<close> of \<^verbatim>\<open>null\<close>, \<^verbatim>\<open>emit\<close> refusing a reserved event name) leads to the
  \<^verbatim>\<open>catch\<close> block, which emits the text as a \<^verbatim>\<open>message\<close>.
\<close>

definition emit_args :: "env \<Rightarrow> string \<Rightarrow> json \<times> json" where
  "emit_args e text =
     (case JSON_parse e text of
        None \<Rightarrow> (JString ''message'', JString text)
      | Some d \<Rightarrow>
          (case get_prop d ''event'' of
             Inl err \<Rightarrow> (JString ''message'', JString text)
           | Inr None \<Rightarrow> (JString ''message'', JString text)
           | Inr (Some ev) \<Rightarrow>
               if truthy ev
               then (if io_emit_throws e ev then (JString ''message'', JString text)
                     else (case get_prop d ''data'' of
                             Inr (Some x) \<Rightarrow> (ev, if truthy x then x else d)
                           | _ \<Rightarrow> (ev, d)))
               else (JString ''message'', JString text)))"

definition send :: "env \<Rightarrow> string \<Rightarrow> client \<Rightarrow> js_result \<times> client" where
  "send e text s =
     (case deref s of
        None \<Rightarrow> (Ret_bool False, effect_add (Log_ws Send_failed_not_connected Warn) s)
      | Some (i, t) \<Rightarrow>
          if connectionType s = Some socketio
          then (if connected t = Some True
                then (Ret_bool True,
                      effect_add (Log_tx text)
                        (effect_add (Native_emit i (fst (emit_args e text)) (snd (emit_args e text))) s))
                else (Ret_bool False,
                      effect_add (Log_ws Send_failed_SocketIO_not_connected Warn) s))
          else if connectionType s = Some websocket
          then (if readyState t = Some OPEN
                then (Ret_bool True, effect_add (Log_tx text) (effect_add (Native_send i text) s))
                else (Ret_bool False,
                      effect_add (Log_ws Send_failed_connection_not_open Warn) s))
          else (Ret_bool False, s))"

definition isOpen :: "client \<Rightarrow> js_result" where
  "isOpen s =
     (case deref s of
        None \<Rightarrow> Ret_bool False
      | Some (i, t) \<Rightarrow>
          if connectionType s = Some socketio
          then (case connected t of None \<Rightarrow> Ret_undefined | Some b \<Rightarrow> Ret_bool b)
          else if connectionType s = Some websocket
          then Ret_bool (readyState t = Some OPEN)
          else Ret_bool False)"


section \<open>Runs\<close>

text \<open>
  What can happen to a client: a call of one of its methods, a notification that the
  platform delivers to the handlers of one transport object, or a pending timeout that
  fires and runs its callback \<^verbatim>\<open>() => this.connect()\<close>. The platform delivers a
  notification only where the object's phase allows it, and moves the phase before the
  handler runs: \<open>Opened\<close> needs a connecting object, messages need an open one, \<open>Closed\<close>
  is the close event of a WebSocket that is not closed yet or the \<^verbatim>\<open>disconnect\<close> event of
  a connected socket, \<open>Connect_error\<close> is Socket.IO's failure to connect. A \<^verbatim>\<open>message\<close>
  event of Socket.IO reaches the catch-all handler too, which ignores it.
\<close>

datatype event =
    Connect_call
  | Disconnect_call
  | Send_call string
  | Opened nat
  | Ws_message nat ws_data
  | Io_message nat json
  | Io_custom nat string "json list"
  | Errored nat string
  | Closed nat int string
  | Connect_error nat
  | Timeout nat

definition on_opened :: "nat \<Rightarrow> client \<Rightarrow> client" where
  "on_opened i s =
     (case lookup s i of
        None \<Rightarrow> s
      | Some t \<Rightarrow>
          if phase t = CONNECTING
          then (let s1 = set_phase i OPEN s
                in if kind t = websocket then ws_on_open (target t) s1
                   else io_on_connect (target t) s1)
          else s)"

definition on_closed :: "env \<Rightarrow> nat \<Rightarrow> int \<Rightarrow> string \<Rightarrow> client \<Rightarrow> client" where
  "on_closed e i code reason s =
     (case lookup s i of
        None \<Rightarrow> s
      | Some t \<Rightarrow>
          if kind t = websocket
          then (if phase t \<noteq> CLOSED then ws_on_close e code reason (set_phase i CLOSED s) else s)
          else (if phase t = OPEN then io_on_disconnect e reason (set_phase i CLOSED s) else s))"

definition on_connect_error :: "env \<Rightarrow> nat \<Rightarrow> client \<Rightarrow> client" where
  "on_connect_error e i s =
     (case lookup s i of
        None \<Rightarrow> s
      | Some t \<Rightarrow>
          if kind t = socketio \<and> phase t = CONNECTING
          then io_on_connect_error e (set_phase i CLOSED s)
          else s)"

definition on_timeout :: "env \<Rightarrow> nat \<Rightarrow> client \<Rightarrow> client" where
  "on_timeout e h s =
     (if h \<in> fst ` set (timers s)
      then snd (connect e (s\<lparr>timers := filter (\<lambda>p. fst p \<noteq> h) (timers s)\<rparr>))
      else s)"

fun step :: "env \<Rightarrow> event \<Rightarrow> client \<Rightarrow> client" where
  "step e Connect_call s = snd (connect e s)"
| "step e Disconnect_call s = snd (disconnect e s)"
| "step e (Send_call text) s = snd (send e text s)"
| "step e (Opened i) s = on_opened i s"
| "step e (Ws_message i d) s =
     (case lookup s i of
        None \<Rightarrow> s
      | Some t \<Rightarrow> if kind t = websocket \<and> phase t = OPEN then ws_on_message d s else s)"
| "step e (Io_message i d) s =
     (case lookup s i of
        None \<Rightarrow> s
      | Some t \<Rightarrow>
          if kind t = socketio \<and> phase t = OPEN
          then io_on_message e d (io_on_any e ''message'' [d] s) else s)"
| "step e (Io_custom i name args) s =
     (case lookup s i of
        None \<Rightarrow> s
      | Some t \<Rightarrow>
          if kind t = socketio \<and> phase t = OPEN \<and> name \<noteq> ''message''
          then io_on_any e name args s else s)"
| "step e (Errored i msg) s =
     (case lookup s i of
        None \<Rightarrow> s
      | Some t \<Rightarrow> if kind t = websocket then ws_on_error msg s else io_on_error msg s)"
| "step e (Closed i code reason) s = on_closed e i code reason s"
| "step e (Connect_error i) s = on_connect_error e i s"
| "step e (Timeout h) s = on_timeout e h s"

text \<open>A run: each event with the surroundings it happens in.\<close>

fun run :: "(env \<times> event) list \<Rightarrow> client \<Rightarrow> client" where
  "run [] s = s"
| "run (x # xs) s = run xs (step (fst x) (snd x) s)"

section \<open>Properties of states and runs\<close>

text \<open>A transport is live when it is connecting or open.\<close>

definition active :: "transport \<Rightarrow> bool" where
  "active t = (phase t = CONNECTING \<or> phase t = OPEN)"

definition active_transports :: "client \<Rightarrow> nat list" where
  "active_transports s =
     filter (\<lambda>j. active (transports s ! j)) [0..<length (transports s)]"




text \<open>Every pending timeout is the one whose handle the client holds.\<close>

definition timer_ok :: "client \<Rightarrow> bool" where
  "timer_ok s = (\<forall>p \<in> set (timers s). reconnectTimer s = Some (fst p))"

text \<open>Every live transport is the one the client holds, under its own kind.\<close>

definition live_held :: "client \<Rightarrow> bool" where
  "live_held s =
     (\<forall>j < length (transports s). active (transports s ! j) \<longrightarrow>
        connection s = Some j \<and> connectionType s = Some (kind (transports s ! j)))"




text \<open>
  The constructor of the transport that \<^verbatim>\<open>connect()\<close> would make throws: the WebSocket
  constructor for a \<open>websocket\<close> target, \<^verbatim>\<open>new URL\<close> or \<^verbatim>\<open>io\<close> for a \<open>socketio\<close>
  target.
\<close>

definition construction_throws :: "env \<Rightarrow> bool" where
  "construction_throws e =
     (if detectConnectionType (serverUrl e) = socketio
      then (case url_base e (io_url (serverUrl e)) of
              None \<Rightarrow> True
            | Some b \<Rightarrow> io_loaded e \<and> io_ctor_throws e b)
      else ws_ctor_throws e (serverUrl e))"

section \<open>Concrete surroundings and runs\<close>

text \<open>
  A platform on which every constructor succeeds and the Socket.IO library is loaded;
  the configured delay is the default, auto-reconnect is on, and \<^verbatim>\<open>Math.random()\<close>
  gives one half.
\<close>

definition env_ws :: env where
  "env_ws =
     \<lparr>serverUrl = ''ws://host/x'', autoReconnect = True, reconnectDelay = Some 1500,
      math_random = 1 / 2, ws_ctor_throws = (\<lambda>u. False), url_base = (\<lambda>u. Some u),
      io_loaded = True, io_ctor_throws = (\<lambda>u. False), JSON_parse = (\<lambda>t. None),
      JSON_stringify = (\<lambda>j. ''null''), io_emit_throws = (\<lambda>j. False)\<rparr>"

text \<open>The same with auto-reconnect switched off.\<close>

definition env_manual :: env where
  "env_manual = env_ws\<lparr>autoReconnect := False\<rparr>"

text \<open>
  Auto-reconnect is off and the target has a port beyond 65535: it passes the
  application's own validator, is classified \<open>websocket\<close>, and the WebSocket constructor
  rejects it with a SyntaxError.
\<close>

definition env_bad_port :: env where
  "env_bad_port =
     env_ws\<lparr>serverUrl := ''ws://host:99999'', autoReconnect := False,
            ws_ctor_throws := (\<lambda>u. u = ''ws://host:99999'')\<rparr>"

text \<open>
  The target is changed to an HTTP address with such a port: it is classified
  \<open>socketio\<close>, and \<^verbatim>\<open>new URL\<close> rejects it.
\<close>

definition env_http_bad_port :: env where
  "env_http_bad_port =
     env_ws\<lparr>serverUrl := ''http://host:99999'',
            url_base := (\<lambda>u. if u = ''http://host:99999'' then None else Some u)\<rparr>"

text \<open>A WebSocket is opened, the platform reports it open.\<close>

definition run_open :: "(env \<times> event) list" where
  "run_open = [(env_ws, Connect_call), (env_ws, Opened 0)]"




text \<open>
  A WebSocket is open, then \<^verbatim>\<open>connect()\<close> is called with the target changed to the
  HTTP address that \<^verbatim>\<open>new URL\<close> rejects.
\<close>

definition run_kind_changed :: "(env \<times> event) list" where
  "run_kind_changed =
     [(env_ws, Connect_call), (env_ws, Opened 0), (env_http_bad_port, Connect_call)]"



section \<open>The classification\<close>

lemma startsWith_prefix: "startsWith s p \<longleftrightarrow> prefix p s"
  by (induction s p rule: startsWith.induct) auto

lemma str_includes_iff: "str_includes s p \<longleftrightarrow> (\<exists>a b. s = a @ p @ b)"
proof (induction s)
  case Nil
  then show ?case by auto
next
  case (Cons c cs)
  show ?case
  proof
    assume "str_includes (c # cs) p"
    then consider "startsWith (c # cs) p" | "str_includes cs p"
      by auto
    then show "\<exists>a b. c # cs = a @ p @ b"
    proof cases
      case 1
      then obtain b where "c # cs = p @ b"
        by (auto simp: startsWith_prefix prefix_def)
      then have "c # cs = [] @ p @ b" by simp
      then show ?thesis by blast
    next
      case 2
      then obtain a b where "cs = a @ p @ b"
        using Cons.IH by auto
      then have "c # cs = (c # a) @ p @ b" by simp
      then show ?thesis by blast
    qed
  next
    assume "\<exists>a b. c # cs = a @ p @ b"
    then obtain a b where ab: "c # cs = a @ p @ b" by blast
    show "str_includes (c # cs) p"
    proof (cases a)
      case Nil
      with ab have "prefix p (c # cs)" by (simp add: prefix_def)
      then show ?thesis by (simp add: startsWith_prefix)
    next
      case (Cons x a')
      with ab have "cs = a' @ p @ b" by simp
      then show ?thesis using Cons.IH by auto
    qed
  qed
qed





text \<open>
  C7. The kind is a function of the target alone: it is \<open>socketio\<close> exactly when the
  lower-cased target contains \<^verbatim>\<open>socket.io\<close> or begins with \<^verbatim>\<open>http://\<close> or
  \<^verbatim>\<open>https://\<close>, and \<open>websocket\<close> for every other string; \<^verbatim>\<open>ws://host/x\<close> is a
  \<open>websocket\<close> target and \<^verbatim>\<open>https://host\<close> a \<open>socketio\<close> target.
\<close>

theorem detectConnectionType_rule:
  "detectConnectionType url =
     (if (\<exists>a b. toLowerCase url = a @ ''socket.io'' @ b)
         \<or> prefix ''http://'' (toLowerCase url) \<or> prefix ''https://'' (toLowerCase url)
      then socketio else websocket)
   \<and> detectConnectionType ''ws://host/x'' = websocket
   \<and> detectConnectionType ''https://host'' = socketio"
proof -
  have "detectConnectionType ''ws://host/x'' = websocket"
    by code_simp
  moreover have "detectConnectionType ''https://host'' = socketio"
    by code_simp
  ultimately show ?thesis
    by (simp add: detectConnectionType_def Let_def startsWith_prefix str_includes_iff)
qed



section \<open>What each operation changes\<close>

lemma effect_add_fields [simp]:
  "connection (effect_add x s) = connection s"
  "connectionType (effect_add x s) = connectionType s"
  "reconnectTimer (effect_add x s) = reconnectTimer s"
  "manualClose (effect_add x s) = manualClose s"
  "attempt (effect_add x s) = attempt s"
  "transports (effect_add x s) = transports s"
  "timers (effect_add x s) = timers s"
  "next_timer (effect_add x s) = next_timer s"
  "trace (effect_add x s) = trace s @ [x]"
  by (simp_all add: effect_add_def)

lemma set_phase_fields [simp]:
  "connection (set_phase i p s) = connection s"
  "connectionType (set_phase i p s) = connectionType s"
  "reconnectTimer (set_phase i p s) = reconnectTimer s"
  "manualClose (set_phase i p s) = manualClose s"
  "attempt (set_phase i p s) = attempt s"
  "timers (set_phase i p s) = timers s"
  "next_timer (set_phase i p s) = next_timer s"
  "trace (set_phase i p s) = trace s"
  "length (transports (set_phase i p s)) = length (transports s)"
  by (simp_all add: set_phase_def)


lemma scheduleReconnect_fields [simp]:
  "connection (scheduleReconnect e s) = connection s"
  "connectionType (scheduleReconnect e s) = connectionType s"
  "manualClose (scheduleReconnect e s) = manualClose s"
  "transports (scheduleReconnect e s) = transports s"
  "attempt (scheduleReconnect e s) = Suc (attempt s)"
  "reconnectTimer (scheduleReconnect e s) = Some (next_timer s)"
  "next_timer (scheduleReconnect e s) = Suc (next_timer s)"
  by (simp_all add: scheduleReconnect_def clearTimeout_def setTimeout_def Let_def
      split: option.splits)


lemma scheduleReconnect_trace:
  "trace (scheduleReconnect e s) =
     trace s @ [Log_ws (Reconnecting_in
        (base_delay e + math_random e * 250 + min 8000 (real (attempt s) * 300))) Warn]"
  by (simp add: scheduleReconnect_def clearTimeout_def setTimeout_def Let_def
      split: option.splits)



text \<open>The handlers leave the reference, the recorded kind and the store alone.\<close>

lemma ws_on_open_view [simp]:
  "connection (ws_on_open u s) = connection s"
  "connectionType (ws_on_open u s) = connectionType s"
  "transports (ws_on_open u s) = transports s"
  "timers (ws_on_open u s) = timers s"
  "reconnectTimer (ws_on_open u s) = reconnectTimer s"
  "manualClose (ws_on_open u s) = manualClose s"
  "attempt (ws_on_open u s) = 0"
  by (simp_all add: ws_on_open_def)

lemma io_on_connect_view [simp]:
  "connection (io_on_connect u s) = connection s"
  "connectionType (io_on_connect u s) = connectionType s"
  "transports (io_on_connect u s) = transports s"
  "timers (io_on_connect u s) = timers s"
  "reconnectTimer (io_on_connect u s) = reconnectTimer s"
  "manualClose (io_on_connect u s) = manualClose s"
  "attempt (io_on_connect u s) = 0"
  by (simp_all add: io_on_connect_def)

lemma ws_on_message_view [simp]:
  "connection (ws_on_message d s) = connection s"
  "connectionType (ws_on_message d s) = connectionType s"
  "transports (ws_on_message d s) = transports s"
  "timers (ws_on_message d s) = timers s"
  "reconnectTimer (ws_on_message d s) = reconnectTimer s"
  "manualClose (ws_on_message d s) = manualClose s"
  by (simp_all add: ws_on_message_def Let_def)

lemma io_on_message_view [simp]:
  "connection (io_on_message e d s) = connection s"
  "connectionType (io_on_message e d s) = connectionType s"
  "transports (io_on_message e d s) = transports s"
  "timers (io_on_message e d s) = timers s"
  "reconnectTimer (io_on_message e d s) = reconnectTimer s"
  "manualClose (io_on_message e d s) = manualClose s"
  by (simp_all add: io_on_message_def Let_def)

lemma io_on_any_view [simp]:
  "connection (io_on_any e n a s) = connection s"
  "connectionType (io_on_any e n a s) = connectionType s"
  "transports (io_on_any e n a s) = transports s"
  "timers (io_on_any e n a s) = timers s"
  "reconnectTimer (io_on_any e n a s) = reconnectTimer s"
  "manualClose (io_on_any e n a s) = manualClose s"
  by (simp_all add: io_on_any_def Let_def split: list.splits json.splits)

lemma ws_on_error_view [simp]:
  "connection (ws_on_error m s) = connection s"
  "connectionType (ws_on_error m s) = connectionType s"
  "transports (ws_on_error m s) = transports s"
  "timers (ws_on_error m s) = timers s"
  "reconnectTimer (ws_on_error m s) = reconnectTimer s"
  "manualClose (ws_on_error m s) = manualClose s"
  by (simp_all add: ws_on_error_def)

lemma io_on_error_view [simp]:
  "connection (io_on_error m s) = connection s"
  "connectionType (io_on_error m s) = connectionType s"
  "transports (io_on_error m s) = transports s"
  "timers (io_on_error m s) = timers s"
  "reconnectTimer (io_on_error m s) = reconnectTimer s"
  "manualClose (io_on_error m s) = manualClose s"
  by (simp_all add: io_on_error_def)

lemma ws_on_close_view [simp]:
  "connection (ws_on_close e c r s) = connection s"
  "connectionType (ws_on_close e c r s) = connectionType s"
  "transports (ws_on_close e c r s) = transports s"
  "manualClose (ws_on_close e c r s) = manualClose s"
  by (simp_all add: ws_on_close_def Let_def)

lemma io_on_disconnect_view [simp]:
  "connection (io_on_disconnect e r s) = connection s"
  "connectionType (io_on_disconnect e r s) = connectionType s"
  "transports (io_on_disconnect e r s) = transports s"
  "manualClose (io_on_disconnect e r s) = manualClose s"
  by (simp_all add: io_on_disconnect_def Let_def)

lemma io_on_connect_error_view [simp]:
  "connection (io_on_connect_error e s) = connection s"
  "connectionType (io_on_connect_error e s) = connectionType s"
  "transports (io_on_connect_error e s) = transports s"
  "manualClose (io_on_connect_error e s) = manualClose s"
  by (simp_all add: io_on_connect_error_def Let_def)

lemma send_view [simp]:
  "connection (snd (send e t s)) = connection s"
  "connectionType (snd (send e t s)) = connectionType s"
  "transports (snd (send e t s)) = transports s"
  "timers (snd (send e t s)) = timers s"
  "reconnectTimer (snd (send e t s)) = reconnectTimer s"
  "manualClose (snd (send e t s)) = manualClose s"
  "attempt (snd (send e t s)) = attempt s"
  by (simp_all add: send_def split: option.splits prod.splits)


lemma connectWebSocket_type [simp]:
  "connectionType (connectWebSocket e url s) = connectionType s"
  "manualClose (connectWebSocket e url s) = manualClose s"
  by (simp_all add: connectWebSocket_def new_transport_def Let_def)


lemma connectSocketIO_type [simp]:
  "connectionType (connectSocketIO e url s) = connectionType s"
  "manualClose (connectSocketIO e url s) = manualClose s"
  by (simp_all add: connectSocketIO_def new_transport_def Let_def split: option.splits)


lemma connect_type:
  "connection (snd (connect e s)) = None \<or> connectionType (snd (connect e s)) \<noteq> None
   \<or> connection s \<noteq> None \<and> connectionType (snd (connect e s)) = connectionType s"
  by (cases "serverUrl e = []") (auto simp: connect_def Let_def)

section \<open>References stay valid\<close>

lemma lookup_effect_add [simp]: "lookup (effect_add x s) i = lookup s i"
  by (simp add: lookup_def)

lemma deref_effect_add [simp]: "deref (effect_add x s) = deref s"
  by (simp add: deref_def split: option.splits)



lemma ws_close_view [simp]:
  "connection (ws_close i c r s) = connection s"
  "connectionType (ws_close i c r s) = connectionType s"
  "length (transports (ws_close i c r s)) = length (transports s)"
  "manualClose (ws_close i c r s) = manualClose s"
  "timers (ws_close i c r s) = timers s"
  "reconnectTimer (ws_close i c r s) = reconnectTimer s"
  by (simp_all add: ws_close_def)

lemma socket_disconnect_view [simp]:
  "connection (socket_disconnect e i t s) = connection s"
  "connectionType (socket_disconnect e i t s) = connectionType s"
  "length (transports (socket_disconnect e i t s)) = length (transports s)"
  "manualClose (socket_disconnect e i t s) = manualClose s"
  by (simp_all add: socket_disconnect_def Let_def)

lemma clearTimeout_view [simp]:
  "connection (clearTimeout h s) = connection s"
  "connectionType (clearTimeout h s) = connectionType s"
  "transports (clearTimeout h s) = transports s"
  "manualClose (clearTimeout h s) = manualClose s"
  "reconnectTimer (clearTimeout h s) = reconnectTimer s"
  "attempt (clearTimeout h s) = attempt s"
  "trace (clearTimeout h s) = trace s"
  "next_timer (clearTimeout h s) = next_timer s"
  by (simp_all add: clearTimeout_def split: option.splits)

lemma clearTimeout_timers:
  "timers (clearTimeout h s) = filter (\<lambda>p. Some (fst p) \<noteq> h) (timers s)"
  by (cases h) (simp_all add: clearTimeout_def)












section \<open>Sending and receiving\<close>





text \<open>
  C8. A text message that the platform delivers on an open WebSocket reaches
  \<^verbatim>\<open>onMessage\<close> (and the \<^verbatim>\<open>rx\<close> log) as the same string, character for character,
  the empty string included; nothing else in the client changes.
\<close>

theorem ws_message_verbatim:
  "lookup s i = Some tr \<Longrightarrow> kind tr = websocket \<Longrightarrow>
   step e (Ws_message i (Text_frame t)) s =
     (if phase tr = OPEN then s\<lparr>trace := trace s @ [Log_rx t, Call_onMessage t]\<rparr> else s)"
  by (simp add: ws_on_message_def effect_add_def)

theorem ws_message_verbatim_witness:
  "lookup (run run_open client_init) 0
     = Some \<lparr>kind = websocket, target = ''ws://host/x'', phase = OPEN\<rparr>
   \<and> trace (step env_ws (Ws_message 0 (Text_frame ''log: a  b'')) (run run_open client_init))
     = trace (run run_open client_init) @ [Log_rx ''log: a  b'', Call_onMessage ''log: a  b'']"
proof -
  have l: "lookup (run run_open client_init) 0
     = Some \<lparr>kind = websocket, target = ''ws://host/x'', phase = OPEN\<rparr>"
    by code_simp
  from ws_message_verbatim [OF l, of env_ws "''log: a  b''"] l show ?thesis
    by simp
qed

text \<open>
  C9. In every client state and for every text, \<^verbatim>\<open>send(text)\<close> returns \<^verbatim>\<open>true\<close>
  exactly when \<^verbatim>\<open>isOpen()\<close> returns \<^verbatim>\<open>true\<close>, whichever kind is recorded: both read
  \<^verbatim>\<open>connected\<close> of the object held for \<open>socketio\<close> and compare \<^verbatim>\<open>readyState\<close> with
  \<^verbatim>\<open>WebSocket.OPEN\<close> for \<open>websocket\<close>.
\<close>

theorem send_true_iff_isOpen:
  "fst (send e text s) = Ret_bool True \<longleftrightarrow> isOpen s = Ret_bool True"
  by (simp add: send_def isOpen_def connected_def split: option.splits prod.splits)

theorem send_true_iff_isOpen_witness:
  "fst (send env_ws ''ping:1'' (run run_open client_init)) = Ret_bool True
   \<and> isOpen (run run_open client_init) = Ret_bool True
   \<and> isOpen (run run_kind_changed client_init) = Ret_undefined
   \<and> fst (send env_ws ''ping:1'' (run run_kind_changed client_init)) = Ret_bool False"
proof -
  have 1: "isOpen (run run_open client_init) = Ret_bool True"
    by code_simp
  have 2: "isOpen (run run_kind_changed client_init) = Ret_undefined"
    by code_simp
  have 3: "fst (send env_ws ''ping:1'' (run run_kind_changed client_init)) = Ret_bool False"
    by code_simp
  from send_true_iff_isOpen [of env_ws "''ping:1''" "run run_open client_init"] 1 2 3
  show ?thesis by simp
qed


section \<open>At most one pending timeout\<close>


lemma timer_ok_effect_add [simp]: "timer_ok (effect_add x s) = timer_ok s"
  by (simp add: timer_ok_def)

lemma timer_ok_set_phase [simp]: "timer_ok (set_phase i p s) = timer_ok s"
  by (simp add: timer_ok_def)




lemma timer_ok_new_transport: "timer_ok (snd (new_transport k u s)) = timer_ok s"
  by (simp add: new_transport_def timer_ok_def)







lemma timer_ok_connection_update [simp]: "timer_ok (s\<lparr>connection := c\<rparr>) = timer_ok s"
  by (simp add: timer_ok_def)







section \<open>Live transports\<close>

lemma active_transports_empty:
  "active_transports s = [] \<longleftrightarrow> (\<forall>j < length (transports s). \<not> active (transports s ! j))"
  by (auto simp: active_transports_def filter_empty_conv)


lemma live_held_no_active: "active_transports s = [] \<Longrightarrow> live_held s"
  by (simp add: live_held_def active_transports_empty)


lemma active_phase [simp]: "active (t\<lparr>phase := p\<rparr>) = (p = CONNECTING \<or> p = OPEN)"
  by (simp add: active_def)

lemma kind_phase [simp]: "kind (t\<lparr>phase := p\<rparr>) = kind t"
  by simp
















section \<open>The reconnect policy and the reset of its state\<close>














text \<open>
  C4 at an input where the code departs from it. Auto-reconnect is off and the WebSocket
  constructor rejects the target. \<^verbatim>\<open>connect()\<close> returns normally and writes the error
  line, and it schedules a reconnect all the same: the \<^verbatim>\<open>catch\<close> block calls
  \<^verbatim>\<open>scheduleReconnect()\<close> without the test that the close handlers make. A close that
  nobody asked for, in the same surroundings, schedules nothing.
\<close>

theorem connect_failure_ignores_autoReconnect:
  "\<not> autoReconnect env_bad_port
   \<and> construction_throws env_bad_port
   \<and> fst (connect env_bad_port client_init) = Ret_undefined
   \<and> timers (snd (connect env_bad_port client_init)) = [(0, 1625)]
   \<and> trace (snd (connect env_bad_port client_init)) =
       [Log_ws (Connecting_via_WebSocket ''ws://host:99999'') Info,
        Log_ws Connection_failed Error, Log_ws (Reconnecting_in 1625) Warn]
   \<and> \<not> manualClose (run [(env_manual, Connect_call)] client_init)
   \<and> timers (step env_bad_port (Closed 0 1006 [])
              (run [(env_manual, Connect_call)] client_init)) = []"
  by code_simp

text \<open>
  \<^verbatim>\<open>disconnect()\<close> where nothing is held, and where the recorded kind is the kind of the
  object held.
\<close>

lemma disconnect_idle:
  "disconnect e client_init = (Ret_undefined, client_init\<lparr>manualClose := True\<rparr>)"
  by (simp add: disconnect_def client_init_def clearTimeout_def deref_def Let_def)

lemma deref_same:
  "connection s' = connection s \<Longrightarrow> transports s' = transports s \<Longrightarrow> deref s' = deref s"
  unfolding deref_def lookup_def by (cases "connection s") simp_all

lemma disconnect_kind_agrees:
  assumes "timer_ok s" "deref s = Some (i, t)" "connectionType s = Some (kind t)"
  shows "fst (disconnect e s) = Ret_undefined
    \<and> manualClose (snd (disconnect e s))
    \<and> timers (snd (disconnect e s)) = []
    \<and> connection (snd (disconnect e s)) = None
    \<and> \<not> active (transports (snd (disconnect e s)) ! i)
    \<and> (kind t = websocket \<and> active t \<longrightarrow>
         Native_close i 1000 ''client-close'' \<in> set (trace (snd (disconnect e s))))"
proof -
  define s2 where
    "s2 = clearTimeout (reconnectTimer (s\<lparr>manualClose := True\<rparr>)) (s\<lparr>manualClose := True\<rparr>)"
  have v: "connection s2 = connection s" "connectionType s2 = connectionType s"
    "transports s2 = transports s" "manualClose s2" "trace s2 = trace s"
    by (simp_all add: s2_def)
  have t0: "timers s2 = []"
    using assms(1) by (auto simp: s2_def clearTimeout_timers timer_ok_def filter_empty_conv)
  have d2: "deref s2 = Some (i, t)"
    using assms(2) v deref_same [of s2 s] by simp
  from assms(2) have i: "i < length (transports s)" "t = transports s ! i"
    by (auto simp: deref_def lookup_def split: option.splits if_splits)
  show ?thesis
  proof (cases "kind t")
    case websocket
    show ?thesis
    proof (cases "active t")
      case True
      then have r: "readyState t = Some OPEN \<or> readyState t = Some CONNECTING"
        using websocket by (auto simp: readyState_def active_def)
      have "disconnect e s =
        (Ret_undefined, (ws_close i 1000 ''client-close'' s2)\<lparr>connection := None\<rparr>)"
        using d2 v(2) assms(3) websocket r by (simp add: disconnect_def s2_def Let_def)
      then show ?thesis
        using v t0 i by (simp add: ws_close_def set_phase_def effect_add_def active_def)
    next
      case False
      then have r: "\<not> (readyState t = Some OPEN \<or> readyState t = Some CONNECTING)"
        using websocket by (auto simp: readyState_def active_def)
      have "disconnect e s = (Ret_undefined, s2\<lparr>connection := None\<rparr>)"
        using d2 v(2) assms(3) websocket r by (simp add: disconnect_def s2_def Let_def)
      then show ?thesis
        using v t0 i False by simp
    qed
  next
    case socketio
    have "disconnect e s =
      (Ret_undefined, (socket_disconnect e i t s2)\<lparr>connection := None\<rparr>)"
      using d2 v(2) assms(3) socketio by (simp add: disconnect_def s2_def Let_def)
    then show ?thesis
      using v t0 i socketio
      by (simp add: socket_disconnect_def io_on_disconnect_def Let_def set_phase_def
          effect_add_def active_def)
  qed
qed

text \<open>
  C6 at an input where the code departs from it. A WebSocket is open; \<^verbatim>\<open>connect()\<close> is
  called with the target changed to an HTTP address that \<^verbatim>\<open>new URL\<close> rejects, which
  records the kind \<open>socketio\<close> and leaves the WebSocket in \<^verbatim>\<open>this.connection\<close>. Then
  \<^verbatim>\<open>disconnect()\<close> calls a method the WebSocket does not have: it throws a TypeError,
  the WebSocket stays open and stays referenced, and no native close is issued.
\<close>

theorem disconnect_throws_after_kind_change:
  "fst (disconnect env_http_bad_port (run run_kind_changed client_init)) = Throw_TypeError
   \<and> connection (snd (disconnect env_http_bad_port (run run_kind_changed client_init))) = Some 0
   \<and> transports (snd (disconnect env_http_bad_port (run run_kind_changed client_init)))
       = [\<lparr>kind = websocket, target = ''ws://host/x'', phase = OPEN\<rparr>]
   \<and> filter (\<lambda>x. case x of Native_close i c r \<Rightarrow> True | Native_disconnect i \<Rightarrow> True | _ \<Rightarrow> False)
        (trace (snd (disconnect env_http_bad_port (run run_kind_changed client_init)))) = []"
  by code_simp

end
